theory Spec2Isabelle
  imports Complex_Main
begin

section \<open>Cell values and the worksheet functions the formulas use\<close>

text \<open>
  \<^verbatim>\<open>build_workbook\<close> writes data rows and formula strings into the sheets D_Units,
  D_Constants, F_Calculations, D_Instances, D_Claims and D_Questions. The evaluation graph
  of the workbook is what those formulas compute, so each formula is translated into a
  function on cell values. A cell holds a number, a text, a logical value or an error.
  Numbers are rationals (every finite binary64 number is one); the arithmetic that the
  sheet performs on them is a parameter \<open>rnd\<close>, applied to the exact result of every
  operation and to every decimal literal: \<open>exact\<close> is arithmetic without rounding,
  \<open>binary64\<close> rounds to the nearest double, ties to even.
\<close>

datatype xl_error = VALUE | DIV0 | NA

datatype xl = Num rat | Str string | Bln bool | Err xl_error

text \<open>
  Operand of an arithmetic operator: a logical value counts as 1 or 0, an error is
  passed on, a text is \<^verbatim>\<open>#VALUE!\<close>. (A text that spells a number would be converted; the
  texts of this workbook are identifiers and the empty string \<^verbatim>\<open>""\<close>, which is
  \<^verbatim>\<open>#VALUE!\<close>.)
\<close>

fun to_num :: "xl \<Rightarrow> xl_error + rat" where
  "to_num (Num x) = Inr x"
| "to_num (Bln b) = Inr (if b then 1 else 0)"
| "to_num (Str s) = Inl VALUE"
| "to_num (Err e) = Inl e"

definition binop :: "(rat \<Rightarrow> rat \<Rightarrow> xl) \<Rightarrow> xl \<Rightarrow> xl \<Rightarrow> xl" where
  "binop f a b =
     (case to_num a of
        Inl e \<Rightarrow> Err e
      | Inr x \<Rightarrow> (case to_num b of Inl e \<Rightarrow> Err e | Inr y \<Rightarrow> f x y))"

definition xl_add :: "(rat \<Rightarrow> rat) \<Rightarrow> xl \<Rightarrow> xl \<Rightarrow> xl" where
  "xl_add rnd = binop (\<lambda>x y. Num (rnd (x + y)))"

definition xl_sub :: "(rat \<Rightarrow> rat) \<Rightarrow> xl \<Rightarrow> xl \<Rightarrow> xl" where
  "xl_sub rnd = binop (\<lambda>x y. Num (rnd (x - y)))"

definition xl_mul :: "(rat \<Rightarrow> rat) \<Rightarrow> xl \<Rightarrow> xl \<Rightarrow> xl" where
  "xl_mul rnd = binop (\<lambda>x y. Num (rnd (x * y)))"

definition xl_div :: "(rat \<Rightarrow> rat) \<Rightarrow> xl \<Rightarrow> xl \<Rightarrow> xl" where
  "xl_div rnd = binop (\<lambda>x y. if y = 0 then Err DIV0 else Num (rnd (x / y)))"

text \<open>The operator \<^verbatim>\<open>^\<close> with a literal natural exponent, as in \<^verbatim>\<open>(...)^2\<close>.\<close>

definition xl_pow :: "(rat \<Rightarrow> rat) \<Rightarrow> xl \<Rightarrow> nat \<Rightarrow> xl" where
  "xl_pow rnd a n = (case to_num a of Inl e \<Rightarrow> Err e | Inr x \<Rightarrow> Num (rnd (x ^ n)))"

definition xl_abs :: "xl \<Rightarrow> xl" where
  "xl_abs a = (case to_num a of Inl e \<Rightarrow> Err e | Inr x \<Rightarrow> Num \<bar>x\<bar>)"

text \<open>
  \<^verbatim>\<open>MAX\<close> and \<^verbatim>\<open>MIN\<close> over cell references: texts and logical values in the
  referenced cells are ignored, the first error is passed on, and no number at all gives 0.
\<close>

fun ref_nums :: "xl list \<Rightarrow> xl_error + rat list" where
  "ref_nums [] = Inr []"
| "ref_nums (Num x # cs) = (case ref_nums cs of Inl e \<Rightarrow> Inl e | Inr xs \<Rightarrow> Inr (x # xs))"
| "ref_nums (Err e # cs) = Inl e"
| "ref_nums (c # cs) = ref_nums cs"

definition xl_max :: "xl list \<Rightarrow> xl" where
  "xl_max cs =
     (case ref_nums cs of
        Inl e \<Rightarrow> Err e
      | Inr [] \<Rightarrow> Num 0
      | Inr (x # xs) \<Rightarrow> Num (fold max xs x))"

definition xl_min :: "xl list \<Rightarrow> xl" where
  "xl_min cs =
     (case ref_nums cs of
        Inl e \<Rightarrow> Err e
      | Inr [] \<Rightarrow> Num 0
      | Inr (x # xs) \<Rightarrow> Num (fold min xs x))"

text \<open>The test \<^verbatim>\<open>X=""\<close>.\<close>

fun is_empty_text :: "xl \<Rightarrow> xl" where
  "is_empty_text (Str s) = Bln (s = [])"
| "is_empty_text (Num x) = Bln False"
| "is_empty_text (Bln b) = Bln False"
| "is_empty_text (Err e) = Err e"

text \<open>Condition of \<^verbatim>\<open>IF\<close> and argument of \<^verbatim>\<open>OR\<close> and \<^verbatim>\<open>NOT\<close>, given as a value.\<close>

fun to_bool :: "xl \<Rightarrow> xl_error + bool" where
  "to_bool (Bln b) = Inr b"
| "to_bool (Num x) = Inr (x \<noteq> 0)"
| "to_bool (Str s) = Inl VALUE"
| "to_bool (Err e) = Inl e"

definition xl_if :: "xl \<Rightarrow> xl \<Rightarrow> xl \<Rightarrow> xl" where
  "xl_if c t f = (case to_bool c of Inl e \<Rightarrow> Err e | Inr b \<Rightarrow> (if b then t else f))"

fun bools :: "xl list \<Rightarrow> xl_error + bool list" where
  "bools [] = Inr []"
| "bools (c # cs) =
     (case to_bool c of
        Inl e \<Rightarrow> Inl e
      | Inr b \<Rightarrow> (case bools cs of Inl e \<Rightarrow> Inl e | Inr bs \<Rightarrow> Inr (b # bs)))"

definition xl_or :: "xl list \<Rightarrow> xl" where
  "xl_or cs = (case bools cs of Inl e \<Rightarrow> Err e | Inr bs \<Rightarrow> Bln (fold (\<or>) bs False))"

definition xl_not :: "xl \<Rightarrow> xl" where
  "xl_not c = (case to_bool c of Inl e \<Rightarrow> Err e | Inr b \<Rightarrow> Bln (\<not> b))"

text \<open>
  The comparison \<^verbatim>\<open>L<=H\<close> with a number \<open>H\<close> on the right: an error is passed on, and
  texts and logical values sort after every number.
\<close>

fun xl_le_num :: "xl \<Rightarrow> rat \<Rightarrow> xl" where
  "xl_le_num (Num x) t = Bln (x \<le> t)"
| "xl_le_num (Err e) t = Err e"
| "xl_le_num (Str s) t = Bln False"
| "xl_le_num (Bln b) t = Bln False"

text \<open>
  \<^verbatim>\<open>VLOOKUP(key, range, col, FALSE)\<close>: the first row of the range whose first column is
  the key, read at the given column; \<^verbatim>\<open>#N/A\<close> when no row has the key. A sheet is a list
  of rows, \<open>ident\<close> reads the first column of the range and \<open>col\<close> the column asked for.
  (The match ignores the case of letters; the identifiers of each sheet differ in more than
  case, so equality of texts finds the same row.)
\<close>

definition vlookup :: "xl \<Rightarrow> 'r list \<Rightarrow> ('r \<Rightarrow> string) \<Rightarrow> ('r \<Rightarrow> xl) \<Rightarrow> xl" where
  "vlookup key rows ident col =
     (case key of
        Err e \<Rightarrow> Err e
      | Str k \<Rightarrow> (case find (\<lambda>r. ident r = k) rows of None \<Rightarrow> Err NA | Some r \<Rightarrow> col r)
      | Num x \<Rightarrow> Err NA
      | Bln b \<Rightarrow> Err NA)"

section \<open>The arithmetic of the sheet\<close>

definition exact :: "rat \<Rightarrow> rat" where
  "exact x = x"

text \<open>
  Rounding to binary64, to nearest with ties to even. \<open>b64_scale\<close> finds the power of
  two \<open>s\<close> that brings a magnitude \<open>a\<close> into \<open>[2^52, 2^53)\<close>: it halves \<open>s\<close> while
  \<open>a * s\<close> is too large, or doubles it while \<open>a * s\<close> is too small, at most 1074 times
  (below \<open>2^-1022\<close> the spacing of the doubles stays \<open>2^-1074\<close>). The value is then rounded
  to a multiple of \<open>1 / s\<close>. Overflow is not represented: no theorem below evaluates
  \<open>binary64\<close> at a magnitude of \<open>2^1024\<close> or more.
\<close>

fun scale_down :: "nat \<Rightarrow> rat \<Rightarrow> rat \<Rightarrow> rat" where
  "scale_down 0 s a = s"
| "scale_down (Suc n) s a = (if 2 ^ 53 \<le> a * s then scale_down n (s / 2) a else s)"

fun scale_up :: "nat \<Rightarrow> rat \<Rightarrow> rat \<Rightarrow> rat" where
  "scale_up 0 s a = s"
| "scale_up (Suc n) s a = (if a * s < 2 ^ 52 then scale_up n (s * 2) a else s)"

definition b64_scale :: "rat \<Rightarrow> rat" where
  "b64_scale a = (if 2 ^ 53 \<le> a then scale_down 1024 1 a else scale_up 1074 1 a)"

definition round_half_even :: "rat \<Rightarrow> int" where
  "round_half_even x =
     (let f = \<lfloor>x\<rfloor>; d = x - of_int f
      in if d < 1 / 2 then f else if 1 / 2 < d then f + 1 else if even f then f else f + 1)"

definition binary64 :: "rat \<Rightarrow> rat" where
  "binary64 x =
     (if x = 0 then 0
      else let s = b64_scale \<bar>x\<bar> in of_int (round_half_even (x * s)) / s)"

text \<open>A decimal literal of the script or of a formula, and a number typed into a cell.\<close>

definition lit :: "(rat \<Rightarrow> rat) \<Rightarrow> rat \<Rightarrow> xl" where
  "lit rnd q = Num (rnd q)"

section \<open>D_Units\<close>

text \<open>
  The rows of \<^verbatim>\<open>units_data\<close>, columns 1 to 6 (column 7, Notes_URL, is a text that no
  formula reads).
\<close>

record unit_row =
  UnitID :: string
  UnitName :: string
  QuantityKind :: string
  SI_UnitName :: string
  ToSI_Mult :: xl
  ToSI_Offset :: xl

definition mk_unit :: "(rat \<Rightarrow> rat) \<Rightarrow> string \<Rightarrow> string \<Rightarrow> string \<Rightarrow> string \<Rightarrow> rat \<Rightarrow> rat \<Rightarrow> unit_row" where
  "mk_unit rnd i n k s m off =
     \<lparr>UnitID = i, UnitName = n, QuantityKind = k, SI_UnitName = s,
      ToSI_Mult = lit rnd m, ToSI_Offset = lit rnd off\<rparr>"

definition units_data :: "(rat \<Rightarrow> rat) \<Rightarrow> unit_row list" where
  "units_data rnd =
     [mk_unit rnd ''U_J'' ''joule'' ''Energy'' ''J'' 1 0,
      mk_unit rnd ''U_eV'' ''electronvolt'' ''Energy'' ''J'' (1602176634 / 10 ^ 28) 0,
      mk_unit rnd ''U_ftlbf'' ''foot-pound force'' ''Energy'' ''J'' (13558179483314 / 10 ^ 13) 0,
      mk_unit rnd ''U_K'' ''kelvin'' ''Temperature'' ''K'' 1 0,
      mk_unit rnd ''U_C'' ''degree Celsius'' ''Temperature'' ''K'' 1 (27315 / 100),
      mk_unit rnd ''U_kg'' ''kilogram'' ''Mass'' ''kg'' 1 0,
      mk_unit rnd ''U_mps'' ''metre per second'' ''Speed'' ''m/s'' 1 0,
      mk_unit rnd ''U_Coul'' ''coulomb'' ''Charge'' ''C'' 1 0]"

text \<open>
  The conversion that D_Constants (columns H, I, J) and D_Instances (columns G, H, I)
  both spell out: \<^verbatim>\<open>VLOOKUP(unit, units_range, 5)\<close>, \<^verbatim>\<open>VLOOKUP(unit, units_range, 6)\<close>
  and \<^verbatim>\<open>=D*H+I\<close>.
\<close>

definition unit_mult :: "(rat \<Rightarrow> rat) \<Rightarrow> xl \<Rightarrow> xl" where
  "unit_mult rnd u = vlookup u (units_data rnd) UnitID ToSI_Mult"

definition unit_offset :: "(rat \<Rightarrow> rat) \<Rightarrow> xl \<Rightarrow> xl" where
  "unit_offset rnd u = vlookup u (units_data rnd) UnitID ToSI_Offset"

definition convert :: "(rat \<Rightarrow> rat) \<Rightarrow> xl \<Rightarrow> xl \<Rightarrow> xl" where
  "convert rnd u v = xl_add rnd (xl_mul rnd v (unit_mult rnd u)) (unit_offset rnd u)"

section \<open>Inputs and D_Constants\<close>

text \<open>
  The yellow input cells: the Value column of D_Constants and the literal Value of the
  instance I_Tabs0_K. \<open>default_inputs\<close> are the numbers the script writes.
\<close>

record inputs =
  in_C_me :: rat
  in_C_c :: rat
  in_C_e :: rat
  in_C_mec2 :: rat
  in_C_abs0 :: rat
  in_I_Tabs0_K :: rat

definition default_inputs :: inputs where
  "default_inputs =
     \<lparr>in_C_me = 91093837139 / 10 ^ 41, in_C_c = 299792458, in_C_e = 1602176634 / 10 ^ 28,
      in_C_mec2 = 81871057880 / 10 ^ 24, in_C_abs0 = 0, in_I_Tabs0_K = 0\<rparr>"

record const_row =
  ConstantID :: string
  c_Value :: xl
  c_UnitID :: xl
  c_Value_SI :: xl

definition constants_rows :: "(rat \<Rightarrow> rat) \<Rightarrow> inputs \<Rightarrow> (string \<times> xl \<times> xl) list" where
  "constants_rows rnd inp =
     [(''C_me'', lit rnd (in_C_me inp), Str ''U_kg''),
      (''C_c'', lit rnd (in_C_c inp), Str ''U_mps''),
      (''C_e'', lit rnd (in_C_e inp), Str ''U_Coul''),
      (''C_mec2'', lit rnd (in_C_mec2 inp), Str ''U_J''),
      (''C_abs0'', lit rnd (in_C_abs0 inp), Str ''U_K'')]"

definition const_formulas :: "(rat \<Rightarrow> rat) \<Rightarrow> string \<times> xl \<times> xl \<Rightarrow> const_row" where
  "const_formulas rnd row =
     (case row of (i, v, u) \<Rightarrow>
        \<lparr>ConstantID = i, c_Value = v, c_UnitID = u, c_Value_SI = convert rnd u v\<rparr>)"

definition D_Constants :: "(rat \<Rightarrow> rat) \<Rightarrow> inputs \<Rightarrow> const_row list" where
  "D_Constants rnd inp = map (const_formulas rnd) (constants_rows rnd inp)"

definition vconst :: "const_row list \<Rightarrow> string \<Rightarrow> xl" where
  "vconst consts const_id = vlookup (Str const_id) consts ConstantID c_Value_SI"

section \<open>F_Calculations\<close>

text \<open>
  Column E (Result_SI): E2 and E3 hold formulas, E4 keeps the empty string that
  \<^verbatim>\<open>calc_rows\<close> has there ("intentionally left blank"). \<open>calc_sheet\<close> takes the content
  of E4 as an argument, so that what reads that cell can be stated.
\<close>

record calc_row =
  CalcID :: string
  Result_SI :: xl

definition calc_sheet :: "(rat \<Rightarrow> rat) \<Rightarrow> const_row list \<Rightarrow> xl \<Rightarrow> calc_row list" where
  "calc_sheet rnd consts e4 =
     [\<lparr>CalcID = ''F_Ecalc'',
       Result_SI = xl_mul rnd (vconst consts ''C_me'') (xl_pow rnd (vconst consts ''C_c'') 2)\<rparr>,
      \<lparr>CalcID = ''F_eV_to_J'', Result_SI = vconst consts ''C_e''\<rparr>,
      \<lparr>CalcID = ''F_T_C_from_K'', Result_SI = e4\<rparr>]"

definition F_Calculations :: "(rat \<Rightarrow> rat) \<Rightarrow> const_row list \<Rightarrow> calc_row list" where
  "F_Calculations rnd consts = calc_sheet rnd consts (Str '''')"

definition vcalc :: "calc_row list \<Rightarrow> string \<Rightarrow> xl" where
  "vcalc calcs calc_id = vlookup (Str calc_id) calcs CalcID Result_SI"

section \<open>D_Instances\<close>

record inst_row =
  InstanceID :: string
  i_Value :: xl
  i_UnitID :: xl
  Canonical_SI :: xl

text \<open>
  Column E (Value): the formulas E2 to E5 and E7, and the literal input E6; E7 is
  \<^verbatim>\<open>=E6-273.15\<close>.
\<close>

definition instances_rows ::
  "(rat \<Rightarrow> rat) \<Rightarrow> inputs \<Rightarrow> const_row list \<Rightarrow> calc_row list \<Rightarrow> (string \<times> xl \<times> xl) list" where
  "instances_rows rnd inp consts calcs =
     (let E6 = lit rnd (in_I_Tabs0_K inp)
      in [(''I_Ecalc_J'', vcalc calcs ''F_Ecalc'', Str ''U_J''),
          (''I_Ecalc_eV'', xl_div rnd (vcalc calcs ''F_Ecalc'') (vcalc calcs ''F_eV_to_J''),
             Str ''U_eV''),
          (''I_Ecalc_ftlbf'', xl_div rnd (vcalc calcs ''F_Ecalc'') (unit_mult rnd (Str ''U_ftlbf'')),
             Str ''U_ftlbf''),
          (''I_Eexpected_J'', vconst consts ''C_mec2'', Str ''U_J''),
          (''I_Tabs0_K'', E6, Str ''U_K''),
          (''I_Tabs0_C'', xl_sub rnd E6 (lit rnd (27315 / 100)), Str ''U_C'')])"

definition inst_formulas :: "(rat \<Rightarrow> rat) \<Rightarrow> string \<times> xl \<times> xl \<Rightarrow> inst_row" where
  "inst_formulas rnd row =
     (case row of (i, v, u) \<Rightarrow>
        \<lparr>InstanceID = i, i_Value = v, i_UnitID = u, Canonical_SI = convert rnd u v\<rparr>)"

definition D_Instances ::
  "(rat \<Rightarrow> rat) \<Rightarrow> inputs \<Rightarrow> const_row list \<Rightarrow> calc_row list \<Rightarrow> inst_row list" where
  "D_Instances rnd inp consts calcs =
     map (inst_formulas rnd) (instances_rows rnd inp consts calcs)"

section \<open>D_Claims\<close>

record claim_row =
  ClaimID :: string
  InstanceID_1 :: xl
  InstanceID_2 :: xl
  InstanceID_3 :: xl
  ToleranceAbs_SI :: rat
  SI_1 :: xl
  SI_2 :: xl
  SI_3 :: xl
  RangeAbs :: xl
  Pass :: xl

text \<open>The data columns A, E, F, G and H of \<^verbatim>\<open>claims_rows\<close>.\<close>

definition claims_rows :: "(rat \<Rightarrow> rat) \<Rightarrow> (string \<times> xl \<times> xl \<times> xl \<times> rat) list" where
  "claims_rows rnd =
     [(''CL1'', Str ''I_Ecalc_J'', Str ''I_Ecalc_eV'', Str ''I_Ecalc_ftlbf'', rnd (1 / 10 ^ 25)),
      (''CL2'', Str ''I_Ecalc_J'', Str ''I_Eexpected_J'', Str '''', rnd (1 / 10 ^ 22)),
      (''CL3'', Str ''I_Tabs0_K'', Str ''I_Tabs0_C'', Str '''', rnd (1 / 10 ^ 9)),
      (''CL4'', Str '''', Str '''', Str '''', rnd 0)]"

text \<open>Columns I, J, K: \<^verbatim>\<open>=IF(E="","",VLOOKUP(E,inst_range,9,FALSE))\<close>.\<close>

definition si_lookup :: "inst_row list \<Rightarrow> xl \<Rightarrow> xl" where
  "si_lookup insts r = xl_if (is_empty_text r) (Str '''') (vlookup r insts InstanceID Canonical_SI)"

text \<open>Column L: \<^verbatim>\<open>=IF(K="",ABS(I-J),MAX(I,J,K)-MIN(I,J,K))\<close>; column M: \<^verbatim>\<open>=L<=H\<close>.\<close>

definition range_formula :: "(rat \<Rightarrow> rat) \<Rightarrow> xl \<Rightarrow> xl \<Rightarrow> xl \<Rightarrow> xl" where
  "range_formula rnd I J K =
     xl_if (is_empty_text K) (xl_abs (xl_sub rnd I J))
       (xl_sub rnd (xl_max [I, J, K]) (xl_min [I, J, K]))"

definition pass_formula :: "xl \<Rightarrow> rat \<Rightarrow> xl" where
  "pass_formula L H = xl_le_num L H"

definition claim_formulas ::
  "(rat \<Rightarrow> rat) \<Rightarrow> inst_row list \<Rightarrow> string \<times> xl \<times> xl \<times> xl \<times> rat \<Rightarrow> claim_row" where
  "claim_formulas rnd insts row =
     (case row of (i, e, f, g, h) \<Rightarrow>
        (let I = si_lookup insts e; J = si_lookup insts f; K = si_lookup insts g;
             L = range_formula rnd I J K
         in \<lparr>ClaimID = i, InstanceID_1 = e, InstanceID_2 = f, InstanceID_3 = g,
              ToleranceAbs_SI = h, SI_1 = I, SI_2 = J, SI_3 = K,
              RangeAbs = L, Pass = pass_formula L h\<rparr>))"

text \<open>
  The patch of sheet row 5 (\<^verbatim>\<open>r_cl4 = 5\<close>, the fourth data row): columns I to M are
  overwritten to compare the calculation F_eV_to_J with the constant C_e.
\<close>

definition patch_cl4 :: "(rat \<Rightarrow> rat) \<Rightarrow> const_row list \<Rightarrow> calc_row list \<Rightarrow> claim_row \<Rightarrow> claim_row" where
  "patch_cl4 rnd consts calcs r =
     (let I = vcalc calcs ''F_eV_to_J''; J = vconst consts ''C_e'';
          L = xl_abs (xl_sub rnd I J)
      in r\<lparr>SI_1 := I, SI_2 := J, SI_3 := Str '''', RangeAbs := L,
            Pass := pass_formula L (ToleranceAbs_SI r)\<rparr>)"

definition D_Claims ::
  "(rat \<Rightarrow> rat) \<Rightarrow> const_row list \<Rightarrow> calc_row list \<Rightarrow> inst_row list \<Rightarrow> claim_row list" where
  "D_Claims rnd consts calcs insts =
     (let rows = map (claim_formulas rnd insts) (claims_rows rnd)
      in if 3 < length rows then rows[3 := patch_cl4 rnd consts calcs (rows ! 3)] else rows)"

definition vclaim_pass :: "claim_row list \<Rightarrow> string \<Rightarrow> xl" where
  "vclaim_pass claims cid = vlookup (Str cid) claims ClaimID Pass"

section \<open>D_Questions\<close>

text \<open>Column D (Answer), cells D2 to D7, with the question id of column A.\<close>

definition D_Questions :: "claim_row list \<Rightarrow> (string \<times> xl) list" where
  "D_Questions claims =
     [(''Q0'', vclaim_pass claims ''CL4''),
      (''Q1'', xl_or [vclaim_pass claims ''CL1'', vclaim_pass claims ''CL2'', vclaim_pass claims ''CL3'']),
      (''Q2'', xl_not (vclaim_pass claims ''CL1'')),
      (''Q3'', vclaim_pass claims ''CL2''),
      (''Q4'', vclaim_pass claims ''CL3''),
      (''Q5'', xl_or [vclaim_pass claims ''CL1'', vclaim_pass claims ''CL2'', vclaim_pass claims ''CL3''])]"

section \<open>The workbook as a function of its inputs\<close>

definition wb_consts :: "(rat \<Rightarrow> rat) \<Rightarrow> inputs \<Rightarrow> const_row list" where
  "wb_consts rnd inp = D_Constants rnd inp"

definition wb_calcs :: "(rat \<Rightarrow> rat) \<Rightarrow> inputs \<Rightarrow> calc_row list" where
  "wb_calcs rnd inp = F_Calculations rnd (wb_consts rnd inp)"

definition wb_insts :: "(rat \<Rightarrow> rat) \<Rightarrow> inputs \<Rightarrow> inst_row list" where
  "wb_insts rnd inp = D_Instances rnd inp (wb_consts rnd inp) (wb_calcs rnd inp)"

definition wb_claims :: "(rat \<Rightarrow> rat) \<Rightarrow> inputs \<Rightarrow> claim_row list" where
  "wb_claims rnd inp =
     D_Claims rnd (wb_consts rnd inp) (wb_calcs rnd inp) (wb_insts rnd inp)"

definition wb_questions :: "(rat \<Rightarrow> rat) \<Rightarrow> inputs \<Rightarrow> (string \<times> xl) list" where
  "wb_questions rnd inp = D_Questions (wb_claims rnd inp)"

text \<open>A cell of a sheet by the identifier of its row, as \<^verbatim>\<open>VLOOKUP\<close> finds it.\<close>

definition inst_si :: "inst_row list \<Rightarrow> string \<Rightarrow> xl" where
  "inst_si insts i = vlookup (Str i) insts InstanceID Canonical_SI"

definition claim_range :: "claim_row list \<Rightarrow> string \<Rightarrow> xl" where
  "claim_range claims cid = vlookup (Str cid) claims ClaimID RangeAbs"

section \<open>How the sheets resolve their references\<close>

lemmas xl_ops = binop_def xl_add_def xl_sub_def xl_mul_def xl_div_def xl_pow_def xl_abs_def
  xl_max_def xl_min_def xl_if_def xl_or_def xl_not_def lit_def

lemma exact_0: "exact 0 = 0"
  by (simp add: exact_def)

lemma binary64_0: "binary64 0 = 0"
  by (simp add: binary64_def)

text \<open>The two cells that \<^verbatim>\<open>VLOOKUP\<close> reads from D_Units, for each unit.\<close>

lemma unit_cells:
  "unit_mult rnd (Str ''U_J'') = Num (rnd 1)" "unit_offset rnd (Str ''U_J'') = Num (rnd 0)"
  "unit_mult rnd (Str ''U_eV'') = Num (rnd (1602176634 / 10 ^ 28))"
  "unit_offset rnd (Str ''U_eV'') = Num (rnd 0)"
  "unit_mult rnd (Str ''U_ftlbf'') = Num (rnd (13558179483314 / 10 ^ 13))"
  "unit_offset rnd (Str ''U_ftlbf'') = Num (rnd 0)"
  "unit_mult rnd (Str ''U_K'') = Num (rnd 1)" "unit_offset rnd (Str ''U_K'') = Num (rnd 0)"
  "unit_mult rnd (Str ''U_C'') = Num (rnd 1)"
  "unit_offset rnd (Str ''U_C'') = Num (rnd (27315 / 100))"
  "unit_mult rnd (Str ''U_kg'') = Num (rnd 1)" "unit_offset rnd (Str ''U_kg'') = Num (rnd 0)"
  "unit_mult rnd (Str ''U_mps'') = Num (rnd 1)" "unit_offset rnd (Str ''U_mps'') = Num (rnd 0)"
  "unit_mult rnd (Str ''U_Coul'') = Num (rnd 1)" "unit_offset rnd (Str ''U_Coul'') = Num (rnd 0)"
  by (simp_all add: unit_mult_def unit_offset_def units_data_def mk_unit_def vlookup_def lit_def)

lemma convert_Num:
  "unit_mult rnd u = Num m \<Longrightarrow> unit_offset rnd u = Num off \<Longrightarrow>
   convert rnd u (Num v) = Num (rnd (rnd (v * m) + off))"
  by (simp add: convert_def xl_ops)

lemma convert_units:
  "convert rnd (Str ''U_J'') (Num v) = Num (rnd (rnd (v * rnd 1) + rnd 0))"
  "convert rnd (Str ''U_eV'') (Num v) = Num (rnd (rnd (v * rnd (1602176634 / 10 ^ 28)) + rnd 0))"
  "convert rnd (Str ''U_ftlbf'') (Num v) =
     Num (rnd (rnd (v * rnd (13558179483314 / 10 ^ 13)) + rnd 0))"
  "convert rnd (Str ''U_K'') (Num v) = Num (rnd (rnd (v * rnd 1) + rnd 0))"
  "convert rnd (Str ''U_C'') (Num v) = Num (rnd (rnd (v * rnd 1) + rnd (27315 / 100)))"
  "convert rnd (Str ''U_kg'') (Num v) = Num (rnd (rnd (v * rnd 1) + rnd 0))"
  "convert rnd (Str ''U_mps'') (Num v) = Num (rnd (rnd (v * rnd 1) + rnd 0))"
  "convert rnd (Str ''U_Coul'') (Num v) = Num (rnd (rnd (v * rnd 1) + rnd 0))"
  by (simp_all add: convert_def unit_cells xl_ops)

lemma convert_Err: "convert rnd u (Err e) = Err e"
  by (simp add: convert_def xl_ops)

lemma default_values:
  "in_C_me default_inputs = 91093837139 / 10 ^ 41"
  "in_C_c default_inputs = 299792458"
  "in_C_e default_inputs = 1602176634 / 10 ^ 28"
  "in_C_mec2 default_inputs = 81871057880 / 10 ^ 24"
  "in_C_abs0 default_inputs = 0"
  "in_I_Tabs0_K default_inputs = 0"
  by (simp_all add: default_inputs_def)

lemma vconst_cells:
  "vconst (D_Constants rnd inp) ''C_me'' = convert rnd (Str ''U_kg'') (Num (rnd (in_C_me inp)))"
  "vconst (D_Constants rnd inp) ''C_c'' = convert rnd (Str ''U_mps'') (Num (rnd (in_C_c inp)))"
  "vconst (D_Constants rnd inp) ''C_e'' = convert rnd (Str ''U_Coul'') (Num (rnd (in_C_e inp)))"
  "vconst (D_Constants rnd inp) ''C_mec2'' = convert rnd (Str ''U_J'') (Num (rnd (in_C_mec2 inp)))"
  "vconst (D_Constants rnd inp) ''C_abs0'' = convert rnd (Str ''U_K'') (Num (rnd (in_C_abs0 inp)))"
  by (simp_all add: vconst_def D_Constants_def constants_rows_def const_formulas_def
      vlookup_def lit_def)

lemma vcalc_cells:
  "vcalc (calc_sheet rnd consts e4) ''F_Ecalc'' =
     xl_mul rnd (vconst consts ''C_me'') (xl_pow rnd (vconst consts ''C_c'') 2)"
  "vcalc (calc_sheet rnd consts e4) ''F_eV_to_J'' = vconst consts ''C_e''"
  "vcalc (calc_sheet rnd consts e4) ''F_T_C_from_K'' = e4"
  by (simp_all add: vcalc_def calc_sheet_def vlookup_def)

lemma inst_cells:
  "inst_si (D_Instances rnd inp consts calcs) ''I_Ecalc_J'' =
     convert rnd (Str ''U_J'') (vcalc calcs ''F_Ecalc'')"
  "inst_si (D_Instances rnd inp consts calcs) ''I_Ecalc_eV'' =
     convert rnd (Str ''U_eV'') (xl_div rnd (vcalc calcs ''F_Ecalc'') (vcalc calcs ''F_eV_to_J''))"
  "inst_si (D_Instances rnd inp consts calcs) ''I_Ecalc_ftlbf'' =
     convert rnd (Str ''U_ftlbf'')
       (xl_div rnd (vcalc calcs ''F_Ecalc'') (unit_mult rnd (Str ''U_ftlbf'')))"
  "inst_si (D_Instances rnd inp consts calcs) ''I_Eexpected_J'' =
     convert rnd (Str ''U_J'') (vconst consts ''C_mec2'')"
  "inst_si (D_Instances rnd inp consts calcs) ''I_Tabs0_K'' =
     convert rnd (Str ''U_K'') (Num (rnd (in_I_Tabs0_K inp)))"
  "inst_si (D_Instances rnd inp consts calcs) ''I_Tabs0_C'' =
     convert rnd (Str ''U_C'')
       (xl_sub rnd (Num (rnd (in_I_Tabs0_K inp))) (Num (rnd (27315 / 100))))"
  by (simp_all add: inst_si_def D_Instances_def instances_rows_def inst_formulas_def
      vlookup_def lit_def Let_def)

lemma si_lookup_cells:
  "si_lookup insts (Str '''') = Str ''''"
  "si_lookup insts (Str (c # cs)) = inst_si insts (c # cs)"
  by (simp_all add: si_lookup_def inst_si_def xl_if_def)

lemma range_formula_two: "range_formula rnd I J (Str '''') = xl_abs (xl_sub rnd I J)"
  by (simp add: range_formula_def xl_if_def)

lemma claim_ids:
  "map ClaimID (D_Claims rnd consts calcs insts) = [''CL1'', ''CL2'', ''CL3'', ''CL4'']"
  by (simp add: D_Claims_def claims_rows_def claim_formulas_def patch_cl4_def Let_def)

lemma claim_cells:
  "claim_range (D_Claims rnd consts calcs insts) ''CL1'' =
     range_formula rnd (inst_si insts ''I_Ecalc_J'') (inst_si insts ''I_Ecalc_eV'')
       (inst_si insts ''I_Ecalc_ftlbf'')"
  "claim_range (D_Claims rnd consts calcs insts) ''CL2'' =
     xl_abs (xl_sub rnd (inst_si insts ''I_Ecalc_J'') (inst_si insts ''I_Eexpected_J''))"
  "claim_range (D_Claims rnd consts calcs insts) ''CL3'' =
     xl_abs (xl_sub rnd (inst_si insts ''I_Tabs0_K'') (inst_si insts ''I_Tabs0_C''))"
  "claim_range (D_Claims rnd consts calcs insts) ''CL4'' =
     xl_abs (xl_sub rnd (vcalc calcs ''F_eV_to_J'') (vconst consts ''C_e''))"
  by (simp_all add: claim_range_def D_Claims_def claims_rows_def claim_formulas_def
      patch_cl4_def vlookup_def Let_def si_lookup_cells range_formula_two)

lemma pass_cells:
  "vclaim_pass (D_Claims rnd consts calcs insts) ''CL1'' =
     pass_formula (claim_range (D_Claims rnd consts calcs insts) ''CL1'') (rnd (1 / 10 ^ 25))"
  "vclaim_pass (D_Claims rnd consts calcs insts) ''CL2'' =
     pass_formula (claim_range (D_Claims rnd consts calcs insts) ''CL2'') (rnd (1 / 10 ^ 22))"
  "vclaim_pass (D_Claims rnd consts calcs insts) ''CL3'' =
     pass_formula (claim_range (D_Claims rnd consts calcs insts) ''CL3'') (rnd (1 / 10 ^ 9))"
  "vclaim_pass (D_Claims rnd consts calcs insts) ''CL4'' =
     pass_formula (claim_range (D_Claims rnd consts calcs insts) ''CL4'') (rnd 0)"
  by (simp_all add: vclaim_pass_def claim_range_def D_Claims_def claims_rows_def
      claim_formulas_def patch_cl4_def vlookup_def Let_def)

section \<open>Unit conversion\<close>

lemma convert_rows:
  "\<forall>u \<in> set (units_data rnd). \<exists>m off.
      ToSI_Mult u = Num m \<and> ToSI_Offset u = Num off \<and>
      (\<forall>x. convert rnd (Str (UnitID u)) (Num x) = Num (rnd (rnd (x * m) + off)))"
  by (simp add: units_data_def mk_unit_def lit_def convert_Num unit_cells)

text \<open>
  C3. For every row of D_Units and every raw number, the conversion that the sheets
  compute (\<^verbatim>\<open>=D*H+I\<close> with H and I looked up by unit id) is the product with the row's
  multiplier followed by the sum with the row's offset, each operation performed in the
  arithmetic of the sheet; in exact arithmetic this is \<open>x * m + off\<close>. The energy units of
  the table have offset 0 and the temperature unit degree Celsius has multiplier 1 and
  offset 273.15, so the offset is not always 0.
\<close>

theorem convert_is_affine:
  "(\<forall>u \<in> set (units_data rnd). \<exists>m off.
      ToSI_Mult u = Num m \<and> ToSI_Offset u = Num off \<and>
      (\<forall>x. convert rnd (Str (UnitID u)) (Num x) = Num (rnd (rnd (x * m) + off)))) \<and>
   (\<forall>u \<in> set (units_data exact). \<exists>m off.
      ToSI_Mult u = Num m \<and> ToSI_Offset u = Num off \<and>
      (\<forall>x. convert exact (Str (UnitID u)) (Num x) = Num (x * m + off))) \<and>
   map (\<lambda>u. (UnitID u, ToSI_Offset u))
     (filter (\<lambda>u. QuantityKind u = ''Energy'') (units_data exact)) =
     [(''U_J'', Num 0), (''U_eV'', Num 0), (''U_ftlbf'', Num 0)] \<and>
   map (\<lambda>u. (UnitID u, UnitName u, ToSI_Mult u, ToSI_Offset u))
     (filter (\<lambda>u. QuantityKind u = ''Temperature'') (units_data exact)) =
     [(''U_K'', ''kelvin'', Num 1, Num 0),
      (''U_C'', ''degree Celsius'', Num 1, Num (27315 / 100))]"
proof (intro conjI)
  show "\<forall>u \<in> set (units_data rnd). \<exists>m off.
      ToSI_Mult u = Num m \<and> ToSI_Offset u = Num off \<and>
      (\<forall>x. convert rnd (Str (UnitID u)) (Num x) = Num (rnd (rnd (x * m) + off)))"
    by (rule convert_rows)
  show "\<forall>u \<in> set (units_data exact). \<exists>m off.
      ToSI_Mult u = Num m \<and> ToSI_Offset u = Num off \<and>
      (\<forall>x. convert exact (Str (UnitID u)) (Num x) = Num (x * m + off))"
    using convert_rows [of exact] by (simp add: exact_def)
  show "map (\<lambda>u. (UnitID u, ToSI_Offset u))
     (filter (\<lambda>u. QuantityKind u = ''Energy'') (units_data exact)) =
     [(''U_J'', Num 0), (''U_eV'', Num 0), (''U_ftlbf'', Num 0)]"
    by (simp add: units_data_def mk_unit_def lit_def exact_def)
  show "map (\<lambda>u. (UnitID u, UnitName u, ToSI_Mult u, ToSI_Offset u))
     (filter (\<lambda>u. QuantityKind u = ''Temperature'') (units_data exact)) =
     [(''U_K'', ''kelvin'', Num 1, Num 0),
      (''U_C'', ''degree Celsius'', Num 1, Num (27315 / 100))]"
    by (simp add: units_data_def mk_unit_def lit_def exact_def)
qed

theorem convert_is_affine_witness:
  "mk_unit exact ''U_C'' ''degree Celsius'' ''Temperature'' ''K'' 1 (27315 / 100)
     \<in> set (units_data exact) \<and>
   convert exact (Str ''U_C'') (Num 20) = Num (20 * 1 + 27315 / 100)"
proof -
  let ?u = "mk_unit exact ''U_C'' ''degree Celsius'' ''Temperature'' ''K'' 1 (27315 / 100)"
  have mem: "?u \<in> set (units_data exact)"
    by (simp add: units_data_def)
  have "\<forall>u \<in> set (units_data exact). \<exists>m off.
      ToSI_Mult u = Num m \<and> ToSI_Offset u = Num off \<and>
      (\<forall>x. convert exact (Str (UnitID u)) (Num x) = Num (x * m + off))"
    using convert_is_affine [of exact] by blast
  with mem have "\<exists>m off. ToSI_Mult ?u = Num m \<and> ToSI_Offset ?u = Num off \<and>
      (\<forall>x. convert exact (Str (UnitID ?u)) (Num x) = Num (x * m + off))"
    by blast
  then have "convert exact (Str ''U_C'') (Num 20) = Num (20 * 1 + 27315 / 100)"
    by (auto simp add: mk_unit_def lit_def exact_def)
  with mem show ?thesis by simp
qed

section \<open>Claims: range and pass\<close>

text \<open>
  C1. In every row of D_Claims the Pass cell is the comparison \<open>RangeAbs <= tolerance\<close>
  (inclusive), and the RangeAbs cell is the range formula of the row's three SI cells
  (the patched row CL4 included). On numbers the comparison is \<open>r \<le> t\<close>; with
  three values present the range is the largest minus the smallest, with two present it is
  the absolute value of their difference.
\<close>

theorem claim_pass_iff_range_le_tolerance:
  "map Pass (wb_claims rnd inp) =
     map (\<lambda>r. pass_formula (RangeAbs r) (ToleranceAbs_SI r)) (wb_claims rnd inp) \<and>
   map RangeAbs (wb_claims rnd inp) =
     map (\<lambda>r. range_formula rnd (SI_1 r) (SI_2 r) (SI_3 r)) (wb_claims rnd inp) \<and>
   pass_formula (Num r) t = Bln (r \<le> t) \<and>
   range_formula rnd (Num a) (Num b) (Num c) = Num (rnd (Max {a, b, c} - Min {a, b, c})) \<and>
   range_formula rnd (Num a) (Num b) (Str '''') = Num \<bar>rnd (a - b)\<bar> \<and>
   range_formula exact (Num a) (Num b) (Num c) = Num (Max {a, b, c} - Min {a, b, c}) \<and>
   range_formula exact (Num a) (Num b) (Str '''') = Num \<bar>a - b\<bar> \<and>
   range_formula exact (Num a) (Str '''') (Num c) = Num \<bar>a - c\<bar> \<and>
   range_formula exact (Str '''') (Num b) (Num c) = Num \<bar>b - c\<bar>"
proof (intro conjI)
  show "map Pass (wb_claims rnd inp) =
     map (\<lambda>r. pass_formula (RangeAbs r) (ToleranceAbs_SI r)) (wb_claims rnd inp)"
    by (simp add: wb_claims_def D_Claims_def claims_rows_def claim_formulas_def
        patch_cl4_def Let_def)
  show "map RangeAbs (wb_claims rnd inp) =
     map (\<lambda>r. range_formula rnd (SI_1 r) (SI_2 r) (SI_3 r)) (wb_claims rnd inp)"
    by (simp add: wb_claims_def D_Claims_def claims_rows_def claim_formulas_def
        patch_cl4_def Let_def range_formula_two)
  show "pass_formula (Num r) t = Bln (r \<le> t)"
    by (simp add: pass_formula_def)
  show "range_formula rnd (Num a) (Num b) (Num c) = Num (rnd (Max {a, b, c} - Min {a, b, c}))"
    by (simp add: range_formula_def xl_ops ac_simps)
  show "range_formula rnd (Num a) (Num b) (Str '''') = Num \<bar>rnd (a - b)\<bar>"
    by (simp add: range_formula_def xl_ops)
  show "range_formula exact (Num a) (Num b) (Num c) = Num (Max {a, b, c} - Min {a, b, c})"
    by (simp add: range_formula_def xl_ops exact_def ac_simps)
  show "range_formula exact (Num a) (Num b) (Str '''') = Num \<bar>a - b\<bar>"
    by (simp add: range_formula_def xl_ops exact_def)
  show "range_formula exact (Num a) (Str '''') (Num c) = Num \<bar>a - c\<bar>"
    by (simp add: range_formula_def xl_ops exact_def max_def min_def)
  show "range_formula exact (Str '''') (Num b) (Num c) = Num \<bar>b - c\<bar>"
    by (simp add: range_formula_def xl_ops exact_def max_def min_def)
qed


text \<open>
  C7 as stated fails: a claim row whose only reference is in the first slot (here the
  instance I_Tabs0_K of the workbook, value 0, and empty second and third slots) has the
  third SI cell empty, so the range is \<^verbatim>\<open>ABS(I-J)\<close> with \<open>J\<close> the empty text: its range
  and its Pass cell are the error \<^verbatim>\<open>#VALUE!\<close>, not 0 and TRUE.
\<close>

theorem one_value_claim_counterexample:
  "SI_1 (claim_formulas exact (wb_insts exact default_inputs)
           (''CLX'', Str ''I_Tabs0_K'', Str '''', Str '''', 1)) = Num 0 \<and>
   SI_2 (claim_formulas exact (wb_insts exact default_inputs)
           (''CLX'', Str ''I_Tabs0_K'', Str '''', Str '''', 1)) = Str '''' \<and>
   SI_3 (claim_formulas exact (wb_insts exact default_inputs)
           (''CLX'', Str ''I_Tabs0_K'', Str '''', Str '''', 1)) = Str '''' \<and>
   RangeAbs (claim_formulas exact (wb_insts exact default_inputs)
           (''CLX'', Str ''I_Tabs0_K'', Str '''', Str '''', 1)) = Err VALUE \<and>
   Pass (claim_formulas exact (wb_insts exact default_inputs)
           (''CLX'', Str ''I_Tabs0_K'', Str '''', Str '''', 1)) = Err VALUE \<and>
   RangeAbs (claim_formulas exact (wb_insts exact default_inputs)
           (''CLX'', Str ''I_Tabs0_K'', Str '''', Str '''', 1)) \<noteq> Num 0 \<and>
   Pass (claim_formulas exact (wb_insts exact default_inputs)
           (''CLX'', Str ''I_Tabs0_K'', Str '''', Str '''', 1)) \<noteq> Bln True"
proof -
  have k: "inst_si (wb_insts exact default_inputs) ''I_Tabs0_K'' = Num 0"
    by (simp add: wb_insts_def inst_cells convert_units exact_def default_inputs_def)
  show ?thesis
    by (simp add: claim_formulas_def Let_def si_lookup_cells k range_formula_two
        pass_formula_def xl_ops)
qed

text \<open>
  C7, amended. Where the only value present is in the third slot, the range is
  \<^verbatim>\<open>MAX-MIN\<close> over that one number, which is 0 in any arithmetic that keeps 0, and the
  claim passes exactly when its tolerance is not negative. Where the only value present is
  in the first or the second slot, the range and the Pass cell are the error \<^verbatim>\<open>#VALUE!\<close>.
\<close>

theorem one_value_claim:
  "rnd 0 = 0 \<Longrightarrow>
   range_formula rnd (Str '''') (Str '''') (Num v) = Num 0 \<and>
   pass_formula (range_formula rnd (Str '''') (Str '''') (Num v)) t = Bln (0 \<le> t) \<and>
   range_formula rnd (Num v) (Str '''') (Str '''') = Err VALUE \<and>
   pass_formula (range_formula rnd (Num v) (Str '''') (Str '''')) t = Err VALUE \<and>
   range_formula rnd (Str '''') (Num v) (Str '''') = Err VALUE \<and>
   pass_formula (range_formula rnd (Str '''') (Num v) (Str '''')) t = Err VALUE"
  by (simp add: range_formula_def pass_formula_def xl_ops)

theorem one_value_claim_witness:
  "exact 0 = 0 \<and>
   range_formula exact (Str '''') (Str '''') (Num 5) = Num 0 \<and>
   pass_formula (range_formula exact (Str '''') (Str '''') (Num 5)) (1 / 10 ^ 9) = Bln True \<and>
   range_formula exact (Num 5) (Str '''') (Str '''') = Err VALUE"
  using one_value_claim [of exact 5 "1 / 10 ^ 9"] by (simp add: exact_0 pass_formula_def)

text \<open>
  C4. Claim CL4 compares the calculation F_eV_to_J, which is the SI value of the constant
  C_e, with that constant itself. Whatever number the input cell of C_e holds, and in any
  arithmetic that keeps 0 (exact and binary64 both do), its range is exactly 0 and it
  passes under its tolerance, which is 0.
\<close>

theorem cl4_definitional:
  "rnd 0 = 0 \<Longrightarrow>
   vcalc (wb_calcs rnd inp) ''F_eV_to_J'' = vconst (wb_consts rnd inp) ''C_e'' \<and>
   map ToleranceAbs_SI (filter (\<lambda>r. ClaimID r = ''CL4'') (wb_claims rnd inp)) = [0] \<and>
   claim_range (wb_claims rnd inp) ''CL4'' = Num 0 \<and>
   vclaim_pass (wb_claims rnd inp) ''CL4'' = Bln True"
proof -
  assume z: "rnd 0 = 0"
  have c: "\<exists>v. vconst (wb_consts rnd inp) ''C_e'' = Num v"
    by (simp add: wb_consts_def vconst_cells convert_units)
  have f: "vcalc (wb_calcs rnd inp) ''F_eV_to_J'' = vconst (wb_consts rnd inp) ''C_e''"
    by (simp add: wb_calcs_def F_Calculations_def vcalc_cells)
  have t: "map ToleranceAbs_SI (filter (\<lambda>r. ClaimID r = ''CL4'') (wb_claims rnd inp)) = [0]"
    by (simp add: wb_claims_def D_Claims_def claims_rows_def claim_formulas_def
        patch_cl4_def Let_def z)
  from c obtain v where v: "vconst (wb_consts rnd inp) ''C_e'' = Num v" ..
  have v': "vconst (D_Constants rnd inp) ''C_e'' = Num v"
    using v by (simp add: wb_consts_def)
  have f': "vcalc (F_Calculations rnd (D_Constants rnd inp)) ''F_eV_to_J'' = Num v"
    using f v by (simp add: wb_calcs_def wb_consts_def)
  have r: "claim_range (wb_claims rnd inp) ''CL4'' = Num 0"
    by (simp add: wb_claims_def wb_consts_def wb_calcs_def claim_cells f' v' xl_ops z)
  have p: "vclaim_pass (wb_claims rnd inp) ''CL4'' = Bln True"
    using r by (simp add: wb_claims_def pass_cells pass_formula_def z)
  from f t r p show ?thesis by simp
qed

theorem cl4_definitional_witness:
  "binary64 0 = 0 \<and>
   claim_range (wb_claims binary64 default_inputs) ''CL4'' = Num 0 \<and>
   vclaim_pass (wb_claims binary64 default_inputs) ''CL4'' = Bln True"
  using cl4_definitional [of binary64 default_inputs] by (simp add: binary64_0)

section \<open>Questions\<close>

text \<open>
  C6. The Answer cells are fixed formulas over the Pass cells of D_Claims and nothing
  else: Q0, Q3 and Q4 are the Pass cell of CL4, CL2 and CL3, Q2 is \<^verbatim>\<open>NOT\<close> of the Pass
  cell of CL1, and Q1 and Q5 are \<^verbatim>\<open>OR\<close> of the Pass cells of CL1, CL2 and CL3, each Pass
  cell being that of the row with the claim's id. On logical values \<^verbatim>\<open>NOT\<close> and \<^verbatim>\<open>OR\<close>
  are negation and disjunction.
\<close>

theorem question_answers:
  "wb_questions rnd inp =
     [(''Q0'', vclaim_pass (wb_claims rnd inp) ''CL4''),
      (''Q1'', xl_or [vclaim_pass (wb_claims rnd inp) ''CL1'',
                      vclaim_pass (wb_claims rnd inp) ''CL2'',
                      vclaim_pass (wb_claims rnd inp) ''CL3'']),
      (''Q2'', xl_not (vclaim_pass (wb_claims rnd inp) ''CL1'')),
      (''Q3'', vclaim_pass (wb_claims rnd inp) ''CL2''),
      (''Q4'', vclaim_pass (wb_claims rnd inp) ''CL3''),
      (''Q5'', xl_or [vclaim_pass (wb_claims rnd inp) ''CL1'',
                      vclaim_pass (wb_claims rnd inp) ''CL2'',
                      vclaim_pass (wb_claims rnd inp) ''CL3''])] \<and>
   map (\<lambda>r. (ClaimID r, Pass r)) (wb_claims rnd inp) =
     [(''CL1'', vclaim_pass (wb_claims rnd inp) ''CL1''),
      (''CL2'', vclaim_pass (wb_claims rnd inp) ''CL2''),
      (''CL3'', vclaim_pass (wb_claims rnd inp) ''CL3''),
      (''CL4'', vclaim_pass (wb_claims rnd inp) ''CL4'')] \<and>
   xl_not (Bln p) = Bln (\<not> p) \<and>
   xl_or [Bln p, Bln q, Bln r] = Bln (p \<or> q \<or> r) \<and>
   D_Questions (map (\<lambda>(i, p). \<lparr>ClaimID = i, InstanceID_1 = e1, InstanceID_2 = e2,
        InstanceID_3 = e3, ToleranceAbs_SI = h, SI_1 = s1, SI_2 = s2, SI_3 = s3,
        RangeAbs = l, Pass = Bln p\<rparr>)
      [(''CL1'', p1), (''CL2'', p2), (''CL3'', p3), (''CL4'', p4)]) =
     [(''Q0'', Bln p4), (''Q1'', Bln (p1 \<or> p2 \<or> p3)), (''Q2'', Bln (\<not> p1)),
      (''Q3'', Bln p2), (''Q4'', Bln p3), (''Q5'', Bln (p1 \<or> p2 \<or> p3))]"
proof (intro conjI)
  show "wb_questions rnd inp =
     [(''Q0'', vclaim_pass (wb_claims rnd inp) ''CL4''),
      (''Q1'', xl_or [vclaim_pass (wb_claims rnd inp) ''CL1'',
                      vclaim_pass (wb_claims rnd inp) ''CL2'',
                      vclaim_pass (wb_claims rnd inp) ''CL3'']),
      (''Q2'', xl_not (vclaim_pass (wb_claims rnd inp) ''CL1'')),
      (''Q3'', vclaim_pass (wb_claims rnd inp) ''CL2''),
      (''Q4'', vclaim_pass (wb_claims rnd inp) ''CL3''),
      (''Q5'', xl_or [vclaim_pass (wb_claims rnd inp) ''CL1'',
                      vclaim_pass (wb_claims rnd inp) ''CL2'',
                      vclaim_pass (wb_claims rnd inp) ''CL3''])]"
    by (simp add: wb_questions_def D_Questions_def)
  show "map (\<lambda>r. (ClaimID r, Pass r)) (wb_claims rnd inp) =
     [(''CL1'', vclaim_pass (wb_claims rnd inp) ''CL1''),
      (''CL2'', vclaim_pass (wb_claims rnd inp) ''CL2''),
      (''CL3'', vclaim_pass (wb_claims rnd inp) ''CL3''),
      (''CL4'', vclaim_pass (wb_claims rnd inp) ''CL4'')]"
    by (simp add: wb_claims_def vclaim_pass_def D_Claims_def claims_rows_def
        claim_formulas_def patch_cl4_def vlookup_def Let_def)
  show "xl_not (Bln p) = Bln (\<not> p)"
    by (simp add: xl_not_def)
  show "xl_or [Bln p, Bln q, Bln r] = Bln (p \<or> q \<or> r)"
    by (auto simp add: xl_or_def)
  show "D_Questions (map (\<lambda>(i, p). \<lparr>ClaimID = i, InstanceID_1 = e1, InstanceID_2 = e2,
        InstanceID_3 = e3, ToleranceAbs_SI = h, SI_1 = s1, SI_2 = s2, SI_3 = s3,
        RangeAbs = l, Pass = Bln p\<rparr>)
      [(''CL1'', p1), (''CL2'', p2), (''CL3'', p3), (''CL4'', p4)]) =
     [(''Q0'', Bln p4), (''Q1'', Bln (p1 \<or> p2 \<or> p3)), (''Q2'', Bln (\<not> p1)),
      (''Q3'', Bln p2), (''Q4'', Bln p3), (''Q5'', Bln (p1 \<or> p2 \<or> p3))]"
    by (auto simp add: D_Questions_def vclaim_pass_def vlookup_def xl_or_def xl_not_def)
qed


section \<open>Evaluating a rounding to binary64\<close>

text \<open>
  The search of \<open>b64_scale\<close> ends at the power of two that normalises the magnitude, so
  a rounding is settled by naming the exponent \<open>k\<close> and rounding one quotient.
\<close>

lemma scale_up_eq:
  "2 ^ 52 \<le> a * s * 2 ^ k \<Longrightarrow> a * s * 2 ^ k < 2 ^ 53 \<Longrightarrow> k \<le> n \<Longrightarrow>
   scale_up n s a = s * 2 ^ k"
proof (induction n arbitrary: s k)
  case 0
  then show ?case by simp
next
  case (Suc n)
  show ?case
  proof (cases k)
    case 0
    with Suc.prems show ?thesis by simp
  next
    case (Suc j)
    have small: "a * s * 2 * 2 ^ j < 2 ^ 53"
      using Suc.prems(2) Suc by simp
    have one: "(1::rat) \<le> 2 ^ j" by simp
    have lt: "a * s < 2 ^ 52"
    proof (rule ccontr)
      assume "\<not> a * s < 2 ^ 52"
      then have h: "2 ^ 52 \<le> a * s" by simp
      then have "0 \<le> a * s * 2" by simp
      from mult_left_mono [OF one this] have "a * s * 2 * 1 \<le> a * s * 2 * 2 ^ j" .
      with h small show False by simp
    qed
    have "scale_up n (s * 2) a = s * 2 * 2 ^ j"
      using Suc.prems Suc by (intro Suc.IH) (simp_all add: mult.assoc)
    with lt Suc show ?thesis by simp
  qed
qed

lemma scale_down_eq:
  "2 ^ 52 \<le> a * s / 2 ^ k \<Longrightarrow> a * s / 2 ^ k < 2 ^ 53 \<Longrightarrow> k \<le> n \<Longrightarrow>
   scale_down n s a = s / 2 ^ k"
proof (induction n arbitrary: s k)
  case 0
  then show ?case by simp
next
  case (Suc n)
  show ?case
  proof (cases k)
    case 0
    with Suc.prems show ?thesis by simp
  next
    case (Suc j)
    have big: "2 ^ 52 \<le> a * s / (2 * 2 ^ j)"
      using Suc.prems(1) Suc by simp
    have one: "(1::rat) \<le> 2 ^ j" by simp
    have A: "2 ^ 53 * 2 ^ j \<le> a * s"
      using big by (simp add: pos_le_divide_eq)
    have B: "(2::rat) ^ 53 * 1 \<le> 2 ^ 53 * 2 ^ j"
      using one by (intro mult_left_mono) simp_all
    from order_trans [OF B A] have ge: "2 ^ 53 \<le> a * s" by simp
    have "scale_down n (s / 2) a = s / 2 / 2 ^ j"
      using Suc.prems Suc by (intro Suc.IH) (simp_all add: mult.assoc)
    with ge Suc show ?thesis by simp
  qed
qed

lemma binary64_up:
  assumes "2 ^ 52 \<le> \<bar>x\<bar> * 2 ^ k" and "\<bar>x\<bar> * 2 ^ k < 2 ^ 53" and "k \<le> 1074"
  shows "binary64 x = of_int (round_half_even (x * 2 ^ k)) / 2 ^ k"
proof -
  have "(1::rat) \<le> 2 ^ k" by simp
  then have "\<bar>x\<bar> * 1 \<le> \<bar>x\<bar> * 2 ^ k" by (intro mult_left_mono) simp_all
  with assms(2) have lt: "\<not> 2 ^ 53 \<le> \<bar>x\<bar>" by simp
  have nz: "x \<noteq> 0" using assms(1) by auto
  have "scale_up 1074 1 \<bar>x\<bar> = 1 * 2 ^ k"
    using assms by (intro scale_up_eq) simp_all
  with lt nz show ?thesis by (simp add: binary64_def b64_scale_def Let_def)
qed

lemma binary64_down:
  assumes "2 ^ 52 \<le> \<bar>x\<bar> / 2 ^ k" and "\<bar>x\<bar> / 2 ^ k < 2 ^ 53" and "0 < k" and "k \<le> 1024"
  shows "binary64 x = of_int (round_half_even (x / 2 ^ k)) * 2 ^ k"
proof -
  have "(2::rat) ^ 1 \<le> 2 ^ k" using assms(3) by (intro power_increasing) simp_all
  then have two: "(2::rat) \<le> 2 ^ k" by simp
  have A: "2 ^ 52 * 2 ^ k \<le> \<bar>x\<bar>" using assms(1) by (simp add: pos_le_divide_eq)
  have B: "(2::rat) ^ 52 * 2 \<le> 2 ^ 52 * 2 ^ k" using two by (intro mult_left_mono) simp_all
  from order_trans [OF B A] have ge: "2 ^ 53 \<le> \<bar>x\<bar>" by simp
  then have nz: "x \<noteq> 0" by auto
  have "scale_down 1024 1 \<bar>x\<bar> = 1 / 2 ^ k"
    using assms by (intro scale_down_eq) simp_all
  with ge nz show ?thesis by (simp add: binary64_def b64_scale_def Let_def)
qed

lemma floor_rat_numeral: "\<lfloor>(numeral a :: rat) / numeral b\<rfloor> = numeral a div numeral b"
  using floor_divide_of_int_eq [of "numeral a" "numeral b", where ?'a = rat] by simp

lemma floor_rat_neg_numeral:
  "\<lfloor>- ((numeral a :: rat) / numeral b)\<rfloor> = - numeral a div numeral b"
  using floor_divide_of_int_eq [of "- numeral a" "numeral b", where ?'a = rat] by simp

lemmas round_eval = round_half_even_def Let_def floor_rat_numeral floor_rat_neg_numeral

text \<open>The exponents that occur in the workbook at its default inputs.\<close>

lemmas b64_rules = round_eval binary64_0
  binary64_up [where k = 24] binary64_up [where k = 34] binary64_up [where k = 44]
  binary64_up [where k = 52] binary64_up [where k = 82] binary64_up [where k = 96]
  binary64_up [where k = 112] binary64_up [where k = 115] binary64_up [where k = 126]
  binary64_up [where k = 134] binary64_up [where k = 136] binary64_up [where k = 152]
  binary64_down [where k = 4]

text \<open>The decimal literals of the script, and 1, as doubles.\<close>

lemma b64_literals:
  "binary64 1 = 1"
  "binary64 (1602176634 / 10 ^ 28) = 6655181362828883 / 2 ^ 115"
  "binary64 (13558179483314 / 10 ^ 13) = 6106061206887523 / 2 ^ 52"
  "binary64 (27315 / 100) = 2402652809016115 / 2 ^ 43"
  "binary64 (91093837139 / 10 ^ 41) = 5200538755054809 / 2 ^ 152"
  "binary64 299792458 = 299792458"
  "binary64 (81871057880 / 10 ^ 24) = 3243246739465691 / 2 ^ 95"
  "binary64 (1 / 10 ^ 25) = 8711228593176025 / 2 ^ 136"
  "binary64 (1 / 10 ^ 22) = 4253529586511731 / 2 ^ 125"
  "binary64 (1 / 10 ^ 9) = 4835703278458517 / 2 ^ 82"
  by (simp_all add: b64_rules)


section \<open>The cells of the workbook\<close>

lemma wb_const_cells:
  "vconst (wb_consts rnd inp) ''C_me'' = convert rnd (Str ''U_kg'') (Num (rnd (in_C_me inp)))"
  "vconst (wb_consts rnd inp) ''C_c'' = convert rnd (Str ''U_mps'') (Num (rnd (in_C_c inp)))"
  "vconst (wb_consts rnd inp) ''C_e'' = convert rnd (Str ''U_Coul'') (Num (rnd (in_C_e inp)))"
  "vconst (wb_consts rnd inp) ''C_mec2'' = convert rnd (Str ''U_J'') (Num (rnd (in_C_mec2 inp)))"
  "vconst (wb_consts rnd inp) ''C_abs0'' = convert rnd (Str ''U_K'') (Num (rnd (in_C_abs0 inp)))"
  by (simp_all add: wb_consts_def vconst_cells)

lemma wb_calc_cells:
  "vcalc (wb_calcs rnd inp) ''F_Ecalc'' =
     xl_mul rnd (vconst (wb_consts rnd inp) ''C_me'')
       (xl_pow rnd (vconst (wb_consts rnd inp) ''C_c'') 2)"
  "vcalc (wb_calcs rnd inp) ''F_eV_to_J'' = vconst (wb_consts rnd inp) ''C_e''"
  "vcalc (wb_calcs rnd inp) ''F_T_C_from_K'' = Str ''''"
  by (simp_all add: wb_calcs_def F_Calculations_def vcalc_cells)

lemma wb_inst_cells:
  "inst_si (wb_insts rnd inp) ''I_Ecalc_J'' =
     convert rnd (Str ''U_J'') (vcalc (wb_calcs rnd inp) ''F_Ecalc'')"
  "inst_si (wb_insts rnd inp) ''I_Ecalc_eV'' =
     convert rnd (Str ''U_eV'')
       (xl_div rnd (vcalc (wb_calcs rnd inp) ''F_Ecalc'') (vcalc (wb_calcs rnd inp) ''F_eV_to_J''))"
  "inst_si (wb_insts rnd inp) ''I_Ecalc_ftlbf'' =
     convert rnd (Str ''U_ftlbf'')
       (xl_div rnd (vcalc (wb_calcs rnd inp) ''F_Ecalc'') (unit_mult rnd (Str ''U_ftlbf'')))"
  "inst_si (wb_insts rnd inp) ''I_Eexpected_J'' =
     convert rnd (Str ''U_J'') (vconst (wb_consts rnd inp) ''C_mec2'')"
  "inst_si (wb_insts rnd inp) ''I_Tabs0_K'' =
     convert rnd (Str ''U_K'') (Num (rnd (in_I_Tabs0_K inp)))"
  "inst_si (wb_insts rnd inp) ''I_Tabs0_C'' =
     convert rnd (Str ''U_C'')
       (xl_sub rnd (Num (rnd (in_I_Tabs0_K inp))) (Num (rnd (27315 / 100))))"
  by (simp_all add: wb_insts_def inst_cells)

lemma wb_claim_cells:
  "claim_range (wb_claims rnd inp) ''CL1'' =
     range_formula rnd (inst_si (wb_insts rnd inp) ''I_Ecalc_J'')
       (inst_si (wb_insts rnd inp) ''I_Ecalc_eV'') (inst_si (wb_insts rnd inp) ''I_Ecalc_ftlbf'')"
  "claim_range (wb_claims rnd inp) ''CL2'' =
     xl_abs (xl_sub rnd (inst_si (wb_insts rnd inp) ''I_Ecalc_J'')
       (inst_si (wb_insts rnd inp) ''I_Eexpected_J''))"
  "claim_range (wb_claims rnd inp) ''CL3'' =
     xl_abs (xl_sub rnd (inst_si (wb_insts rnd inp) ''I_Tabs0_K'')
       (inst_si (wb_insts rnd inp) ''I_Tabs0_C''))"
  "claim_range (wb_claims rnd inp) ''CL4'' =
     xl_abs (xl_sub rnd (vcalc (wb_calcs rnd inp) ''F_eV_to_J'')
       (vconst (wb_consts rnd inp) ''C_e''))"
  by (simp_all add: wb_claims_def claim_cells)

lemma wb_pass_cells:
  "vclaim_pass (wb_claims rnd inp) ''CL1'' =
     pass_formula (claim_range (wb_claims rnd inp) ''CL1'') (rnd (1 / 10 ^ 25))"
  "vclaim_pass (wb_claims rnd inp) ''CL2'' =
     pass_formula (claim_range (wb_claims rnd inp) ''CL2'') (rnd (1 / 10 ^ 22))"
  "vclaim_pass (wb_claims rnd inp) ''CL3'' =
     pass_formula (claim_range (wb_claims rnd inp) ''CL3'') (rnd (1 / 10 ^ 9))"
  "vclaim_pass (wb_claims rnd inp) ''CL4'' =
     pass_formula (claim_range (wb_claims rnd inp) ''CL4'') (rnd 0)"
  by (simp_all add: wb_claims_def pass_cells)

subsection \<open>Exact arithmetic, any inputs\<close>

lemma exact_consts:
  "vconst (wb_consts exact inp) ''C_me'' = Num (in_C_me inp)"
  "vconst (wb_consts exact inp) ''C_c'' = Num (in_C_c inp)"
  "vconst (wb_consts exact inp) ''C_e'' = Num (in_C_e inp)"
  "vconst (wb_consts exact inp) ''C_mec2'' = Num (in_C_mec2 inp)"
  "vconst (wb_consts exact inp) ''C_abs0'' = Num (in_C_abs0 inp)"
  by (simp_all add: wb_const_cells convert_units exact_def)

lemma exact_calcs:
  "vcalc (wb_calcs exact inp) ''F_Ecalc'' = Num (in_C_me inp * (in_C_c inp)\<^sup>2)"
  "vcalc (wb_calcs exact inp) ''F_eV_to_J'' = Num (in_C_e inp)"
  by (simp_all add: wb_calc_cells exact_consts xl_ops exact_def)

lemma exact_insts:
  "inst_si (wb_insts exact inp) ''I_Ecalc_J'' = Num (in_C_me inp * (in_C_c inp)\<^sup>2)"
  "inst_si (wb_insts exact inp) ''I_Ecalc_ftlbf'' = Num (in_C_me inp * (in_C_c inp)\<^sup>2)"
  "inst_si (wb_insts exact inp) ''I_Eexpected_J'' = Num (in_C_mec2 inp)"
  "inst_si (wb_insts exact inp) ''I_Tabs0_K'' = Num (in_I_Tabs0_K inp)"
  "inst_si (wb_insts exact inp) ''I_Tabs0_C'' = Num (in_I_Tabs0_K inp)"
  by (simp_all add: wb_inst_cells exact_calcs exact_consts convert_units unit_cells xl_ops
      exact_def)

lemma exact_inst_eV:
  "inst_si (wb_insts exact inp) ''I_Ecalc_eV'' =
     (if in_C_e inp = 0 then Err DIV0
      else Num (in_C_me inp * (in_C_c inp)\<^sup>2 / in_C_e inp * (1602176634 / 10 ^ 28)))"
  by (simp add: wb_inst_cells exact_calcs convert_units convert_Err xl_ops exact_def)

subsection \<open>Binary64 arithmetic, the inputs of the script\<close>

lemma b64_consts:
  "vconst (wb_consts binary64 default_inputs) ''C_me'' = Num (5200538755054809 / 2 ^ 152)"
  "vconst (wb_consts binary64 default_inputs) ''C_c'' = Num 299792458"
  "vconst (wb_consts binary64 default_inputs) ''C_e'' = Num (6655181362828883 / 2 ^ 115)"
  "vconst (wb_consts binary64 default_inputs) ''C_mec2'' = Num (3243246739465691 / 2 ^ 95)"
  "vconst (wb_consts binary64 default_inputs) ''C_abs0'' = Num 0"
  by (simp_all add: wb_const_cells convert_units default_values b64_rules)

lemma b64_calcs:
  "vcalc (wb_calcs binary64 default_inputs) ''F_Ecalc'' = Num (6486493478906385 / 2 ^ 96)"
  "vcalc (wb_calcs binary64 default_inputs) ''F_eV_to_J'' = Num (6655181362828883 / 2 ^ 115)"
  by (simp_all add: wb_calc_cells b64_consts xl_ops b64_rules)

lemma b64_insts:
  "inst_si (wb_insts binary64 default_inputs) ''I_Ecalc_J'' = Num (6486493478906385 / 2 ^ 96)"
  "inst_si (wb_insts binary64 default_inputs) ''I_Ecalc_eV'' = Num (6486493478906385 / 2 ^ 96)"
  "inst_si (wb_insts binary64 default_inputs) ''I_Ecalc_ftlbf'' =
     Num (6486493478906385 / 2 ^ 96)"
  "inst_si (wb_insts binary64 default_inputs) ''I_Eexpected_J'' =
     Num (3243246739465691 / 2 ^ 95)"
  "inst_si (wb_insts binary64 default_inputs) ''I_Tabs0_K'' = Num 0"
  "inst_si (wb_insts binary64 default_inputs) ''I_Tabs0_C'' = Num 0"
  by (simp_all add: wb_inst_cells b64_calcs b64_consts convert_units unit_cells xl_ops
      default_values b64_rules)


lemma b64_claims:
  "claim_range (wb_claims binary64 default_inputs) ''CL1'' = Num 0"
  "claim_range (wb_claims binary64 default_inputs) ''CL2'' = Num (24997 / 2 ^ 96)"
  "claim_range (wb_claims binary64 default_inputs) ''CL3'' = Num 0"
  by (simp_all add: wb_claim_cells b64_insts range_formula_def xl_ops b64_rules)

section \<open>The numerical claims of the workbook\<close>

text \<open>
  C9. With the inputs of the script, the instance I_Tabs0_K holds 0 (kelvin) and the
  instance I_Tabs0_C holds -273.15 (degree Celsius). Converted through D_Units both have
  the canonical SI value 0, in exact arithmetic and in binary64, so they differ by 0, which
  is at most the tolerance 1e-9 of claim CL3 (or its nearest double), and CL3 passes.
\<close>

theorem cl3_scale_anchor:
  "vlookup (Str ''I_Tabs0_K'') (wb_insts exact default_inputs) InstanceID i_Value = Num 0 \<and>
   vlookup (Str ''I_Tabs0_C'') (wb_insts exact default_inputs) InstanceID i_Value =
     Num (- (27315 / 100)) \<and>
   inst_si (wb_insts exact default_inputs) ''I_Tabs0_K'' = Num 0 \<and>
   inst_si (wb_insts exact default_inputs) ''I_Tabs0_C'' = Num 0 \<and>
   claim_range (wb_claims exact default_inputs) ''CL3'' = Num 0 \<and>
   (0::rat) \<le> 1 / 10 ^ 9 \<and>
   vclaim_pass (wb_claims exact default_inputs) ''CL3'' = Bln True \<and>
   vlookup (Str ''I_Tabs0_C'') (wb_insts binary64 default_inputs) InstanceID i_Value =
     Num (- (2402652809016115 / 2 ^ 43)) \<and>
   inst_si (wb_insts binary64 default_inputs) ''I_Tabs0_K'' = Num 0 \<and>
   inst_si (wb_insts binary64 default_inputs) ''I_Tabs0_C'' = Num 0 \<and>
   claim_range (wb_claims binary64 default_inputs) ''CL3'' = Num 0 \<and>
   vclaim_pass (wb_claims binary64 default_inputs) ''CL3'' = Bln True"
proof -
  have v: "vlookup (Str ''I_Tabs0_K'') (wb_insts rnd inp) InstanceID i_Value =
        Num (rnd (in_I_Tabs0_K inp))"
      "vlookup (Str ''I_Tabs0_C'') (wb_insts rnd inp) InstanceID i_Value =
        xl_sub rnd (Num (rnd (in_I_Tabs0_K inp))) (Num (rnd (27315 / 100)))" for rnd inp
    by (simp_all add: wb_insts_def D_Instances_def instances_rows_def inst_formulas_def
        vlookup_def lit_def Let_def)
  have e: "claim_range (wb_claims exact default_inputs) ''CL3'' = Num 0"
    by (simp add: wb_claim_cells exact_insts xl_ops exact_def)
  have p: "vclaim_pass (wb_claims exact default_inputs) ''CL3'' = Bln True"
    by (simp add: wb_pass_cells e pass_formula_def exact_def)
  have q: "vclaim_pass (wb_claims binary64 default_inputs) ''CL3'' = Bln True"
    by (simp add: wb_pass_cells b64_claims pass_formula_def b64_rules)
  show ?thesis
    by (simp add: v exact_insts default_values e p q b64_insts b64_claims xl_ops exact_def
        b64_rules)
qed


text \<open>
  C8. With the inputs of the script (m_e = 9.1093837139e-31 kg, c = 299792458 m/s), the
  three instances of E = m_e * c^2 held in joules, electronvolts and foot-pound force have
  the same canonical SI value, in exact arithmetic and in binary64 (where all three are
  the double 6486493478906385 / 2^96 of F_Ecalc). The range of claim CL1 is therefore 0,
  which is at most its tolerance 1e-25, and CL1 passes.
\<close>

theorem cl1_energy_invariance:
  "inst_si (wb_insts exact default_inputs) ''I_Ecalc_J'' =
     Num (91093837139 / 10 ^ 41 * 299792458\<^sup>2) \<and>
   inst_si (wb_insts exact default_inputs) ''I_Ecalc_eV'' =
     Num (91093837139 / 10 ^ 41 * 299792458\<^sup>2) \<and>
   inst_si (wb_insts exact default_inputs) ''I_Ecalc_ftlbf'' =
     Num (91093837139 / 10 ^ 41 * 299792458\<^sup>2) \<and>
   claim_range (wb_claims exact default_inputs) ''CL1'' = Num 0 \<and>
   (0::rat) \<le> 1 / 10 ^ 25 \<and>
   vclaim_pass (wb_claims exact default_inputs) ''CL1'' = Bln True \<and>
   inst_si (wb_insts binary64 default_inputs) ''I_Ecalc_J'' = Num (6486493478906385 / 2 ^ 96) \<and>
   inst_si (wb_insts binary64 default_inputs) ''I_Ecalc_eV'' = Num (6486493478906385 / 2 ^ 96) \<and>
   inst_si (wb_insts binary64 default_inputs) ''I_Ecalc_ftlbf'' =
     Num (6486493478906385 / 2 ^ 96) \<and>
   claim_range (wb_claims binary64 default_inputs) ''CL1'' = Num 0 \<and>
   0 \<le> binary64 (1 / 10 ^ 25) \<and>
   vclaim_pass (wb_claims binary64 default_inputs) ''CL1'' = Bln True"
proof -
  have i: "inst_si (wb_insts exact default_inputs) ''I_Ecalc_J'' =
        Num (91093837139 / 10 ^ 41 * 299792458\<^sup>2)"
      "inst_si (wb_insts exact default_inputs) ''I_Ecalc_eV'' =
        Num (91093837139 / 10 ^ 41 * 299792458\<^sup>2)"
      "inst_si (wb_insts exact default_inputs) ''I_Ecalc_ftlbf'' =
        Num (91093837139 / 10 ^ 41 * 299792458\<^sup>2)"
    by (simp_all add: exact_insts exact_inst_eV default_values)
  have r: "claim_range (wb_claims exact default_inputs) ''CL1'' = Num 0"
    by (simp add: wb_claim_cells i range_formula_def xl_ops exact_def)
  have p: "vclaim_pass (wb_claims exact default_inputs) ''CL1'' = Bln True"
    by (simp add: wb_pass_cells r pass_formula_def exact_def)
  have t: "0 \<le> binary64 (1 / 10 ^ 25)"
    by (simp add: b64_rules)
  have q: "vclaim_pass (wb_claims binary64 default_inputs) ''CL1'' = Bln True"
    using t by (simp add: wb_pass_cells b64_claims pass_formula_def)
  from i r p t q show ?thesis
    by (simp add: b64_insts b64_claims)
qed


text \<open>
  C10 as stated fails in binary64: with 2^-60 in the input cell of I_Tabs0_K, the
  subtraction \<^verbatim>\<open>=E6-273.15\<close> rounds to -273.15 (the input is below half the spacing
  of the doubles there), the conversion adds 273.15 back and gives 0, while the kelvin
  instance keeps 2^-60: the two canonical SI values differ and the range of CL3 is 2^-60,
  not 0. (CL3 still passes there.)
\<close>

theorem cl3_range_counterexample:
  "inst_si (wb_insts binary64 (default_inputs\<lparr>in_I_Tabs0_K := 1 / 2 ^ 60\<rparr>)) ''I_Tabs0_K'' =
     Num (1 / 2 ^ 60) \<and>
   inst_si (wb_insts binary64 (default_inputs\<lparr>in_I_Tabs0_K := 1 / 2 ^ 60\<rparr>)) ''I_Tabs0_C'' =
     Num 0 \<and>
   claim_range (wb_claims binary64 (default_inputs\<lparr>in_I_Tabs0_K := 1 / 2 ^ 60\<rparr>)) ''CL3'' =
     Num (1 / 2 ^ 60) \<and>
   claim_range (wb_claims binary64 (default_inputs\<lparr>in_I_Tabs0_K := 1 / 2 ^ 60\<rparr>)) ''CL3'' \<noteq>
     Num 0"
proof -
  define inp where "inp = default_inputs\<lparr>in_I_Tabs0_K := 1 / 2 ^ 60\<rparr>"
  have t: "in_I_Tabs0_K inp = 1 / 2 ^ 60"
    by (simp add: inp_def)
  have i: "inst_si (wb_insts binary64 inp) ''I_Tabs0_K'' = Num (1 / 2 ^ 60)"
      "inst_si (wb_insts binary64 inp) ''I_Tabs0_C'' = Num 0"
    by (simp_all add: wb_inst_cells convert_units xl_ops t b64_rules)
  have r: "claim_range (wb_claims binary64 inp) ''CL3'' = Num (1 / 2 ^ 60)"
    by (simp add: wb_claim_cells i xl_ops b64_rules)
  from i r have
    "inst_si (wb_insts binary64 inp) ''I_Tabs0_K'' = Num (1 / 2 ^ 60) \<and>
     inst_si (wb_insts binary64 inp) ''I_Tabs0_C'' = Num 0 \<and>
     claim_range (wb_claims binary64 inp) ''CL3'' = Num (1 / 2 ^ 60) \<and>
     claim_range (wb_claims binary64 inp) ''CL3'' \<noteq> Num 0"
    by simp
  then show ?thesis
    unfolding inp_def .
qed

text \<open>
  C10, amended. In exact arithmetic, for every number in the input cell of I_Tabs0_K (and
  any other inputs), the kelvin and the Celsius instance have the same canonical SI value,
  the range of CL3 is exactly 0 and CL3 passes.
\<close>

theorem cl3_exact_any_input:
  "inst_si (wb_insts exact inp) ''I_Tabs0_K'' = Num (in_I_Tabs0_K inp) \<and>
   inst_si (wb_insts exact inp) ''I_Tabs0_C'' = Num (in_I_Tabs0_K inp) \<and>
   claim_range (wb_claims exact inp) ''CL3'' = Num 0 \<and>
   vclaim_pass (wb_claims exact inp) ''CL3'' = Bln True"
proof -
  have r: "claim_range (wb_claims exact inp) ''CL3'' = Num 0"
    by (simp add: wb_claim_cells exact_insts xl_ops exact_def)
  have p: "vclaim_pass (wb_claims exact inp) ''CL3'' = Bln True"
    by (simp add: wb_pass_cells r pass_formula_def exact_def)
  from r p show ?thesis by (simp add: exact_insts)
qed

section \<open>The calculation left without a formula\<close>




end
